theory Spec2Isabelle
  imports Complex_Main
begin

section \<open>Python values: errors and string formatting\<close>

text \<open>
  The module \<^verbatim>\<open>HomeLib/image_utils.py\<close> has three functions. Each is modelled as a HOL
  function that returns either the exception the Python raises (\<open>Inl\<close>) or its result
  (\<open>Inr\<close>). An \<open>AssertionError\<close> carries the source line of the failing \<^verbatim>\<open>assert\<close>, as its
  traceback does; the module has two of them (lines 33 and 43).
\<close>

datatype py_error =
    ValueError string
  | TypeError
  | KeyError
  | AssertionError nat

definition digit_char :: "nat \<Rightarrow> char" where
  "digit_char d = ''0123456789'' ! d"

text \<open>Python's \<^verbatim>\<open>str\<close> of a non-negative integer, as the f-string of line 27 formats it.\<close>

function str_nat :: "nat \<Rightarrow> string" where
  "str_nat n = (if n < 10 then [digit_char n] else str_nat (n div 10) @ [digit_char (n mod 10)])"
  by pat_completeness auto
termination
  by (relation "measure id") auto

declare str_nat.simps [simp del]

section \<open>numpy arrays over a flat memory\<close>

text \<open>
  The memory is a list of cells; an address is an index into it and allocation appends.
  An array is a view on the memory: the address of its first element, its shape and its
  strides (counted in elements, possibly negative), and its dtype. Two arrays, or an array
  and a VTK data array, alias when they point into the same cells.
\<close>

datatype np_dtype =
    np_bool | np_uint8 | np_uint16 | np_uint32 | np_uint64
  | np_int8 | np_int16 | np_int32 | np_int64
  | np_float16 | np_float32 | np_float64
  | np_complex64 | np_complex128

record ndarray =
  shape :: "nat list"
  strides :: "int list"
  dtype :: np_dtype
  data :: nat

text \<open>\<^verbatim>\<open>array.size\<close>: the number of elements.\<close>

definition array_size :: "ndarray \<Rightarrow> nat" where
  "array_size a = prod_list (shape a)"

text \<open>All index tuples of a shape, in row-major (C) order.\<close>

fun indices :: "nat list \<Rightarrow> nat list list" where
  "indices [] = [[]]"
| "indices (n # ns) = concat (map (\<lambda>i. map ((#) i) (indices ns)) [0..<n])"

definition elem_addr :: "ndarray \<Rightarrow> nat list \<Rightarrow> int" where
  "elem_addr a idx = int (data a) + sum_list (map2 (\<lambda>i s. int i * s) idx (strides a))"

text \<open>\<^verbatim>\<open>array[idx]\<close> read, and \<^verbatim>\<open>array[idx] = v\<close> written, through the memory.\<close>

definition getitem :: "'a list \<Rightarrow> ndarray \<Rightarrow> nat list \<Rightarrow> 'a" where
  "getitem h a idx = h ! nat (elem_addr a idx)"

definition setitem :: "'a list \<Rightarrow> ndarray \<Rightarrow> nat list \<Rightarrow> 'a \<Rightarrow> 'a list" where
  "setitem h a idx v = h[nat (elem_addr a idx) := v]"

text \<open>The array's values in row-major order: the grid the caller sees.\<close>

definition elements :: "'a list \<Rightarrow> ndarray \<Rightarrow> 'a list" where
  "elements h a = map (getitem h a) (indices (shape a))"

text \<open>
  An array is valid in a memory when it has one stride per axis and every element lies in
  the memory.
\<close>

definition valid_array :: "'a list \<Rightarrow> ndarray \<Rightarrow> bool" where
  "valid_array h a \<longleftrightarrow>
     length (strides a) = length (shape a) \<and>
     list_all (\<lambda>idx. 0 \<le> elem_addr a idx \<and> elem_addr a idx < int (length h)) (indices (shape a))"

text \<open>
  \<^verbatim>\<open>array.flags.c_contiguous\<close>, as numpy computes it from shape and strides: an array with
  an empty axis is contiguous; otherwise, from the last axis to the first, every axis
  longer than one must have the stride of a packed row-major layout.
\<close>

fun c_contig_from :: "nat \<Rightarrow> (nat \<times> int) list \<Rightarrow> bool" where
  "c_contig_from sd [] = True"
| "c_contig_from sd ((d, s) # rest) =
     (if d = 1 then c_contig_from sd rest
      else if s = int sd then c_contig_from (sd * d) rest
      else False)"

definition c_contiguous :: "ndarray \<Rightarrow> bool" where
  "c_contiguous a \<longleftrightarrow>
     0 \<in> set (shape a) \<or> c_contig_from 1 (rev (zip (shape a) (strides a)))"

text \<open>
  \<^verbatim>\<open>np.ravel(array)\<close> at line 46. The array has passed the assertion of line 33 there, and
  for a C-contiguous array numpy returns a one-dimensional view of the same memory.
\<close>

definition ravel :: "ndarray \<Rightarrow> ndarray" where
  "ravel a = \<lparr>shape = [array_size a], strides = [1], dtype = dtype a, data = data a\<rparr>"

text \<open>\<^verbatim>\<open>len(array)\<close>: the length of the first axis (only used on the raveled array).\<close>

definition len :: "ndarray \<Rightarrow> nat" where
  "len a = (case shape a of [] \<Rightarrow> 0 | n # _ \<Rightarrow> n)"

section \<open>The host's scalar types\<close>

text \<open>VTK's scalar type constants.\<close>

datatype vtk_type =
    VTK_BIT | VTK_CHAR | VTK_SIGNED_CHAR | VTK_UNSIGNED_CHAR
  | VTK_SHORT | VTK_UNSIGNED_SHORT | VTK_INT | VTK_UNSIGNED_INT
  | VTK_LONG | VTK_UNSIGNED_LONG | VTK_LONG_LONG | VTK_UNSIGNED_LONG_LONG
  | VTK_ID_TYPE | VTK_FLOAT | VTK_DOUBLE

text \<open>
  The two tables of \<^verbatim>\<open>vtk.util.numpy_support\<close> that the module imports are not part of the
  repository, so the model takes them as a parameter: \<open>get_vtk_array_type\<close> maps a dtype
  to a VTK type or raises \<^verbatim>\<open>TypeError\<close> (\<open>None\<close>), \<open>get_numpy_array_type\<close> looks a VTK
  type up in a dictionary (\<open>None\<close>: \<^verbatim>\<open>KeyError\<close>).
\<close>

record numpy_support =
  get_vtk_array_type :: "np_dtype \<Rightarrow> vtk_type option"
  get_numpy_array_type :: "vtk_type \<Rightarrow> np_dtype option"

text \<open>
  One value of that parameter, used for the examples: the tables as VTK 9 ships them on a
  64-bit platform (\<^verbatim>\<open>vtkmodules/util/numpy_support.py\<close>, the file the comments of lines 24
  and 41 point to). The complex dtypes are mapped to the real VTK types of their
  components, and no VTK type is mapped back to a complex dtype. The general theorems
  below hold for every value of the parameter.
\<close>

definition vtk_numpy_support :: numpy_support where
  "vtk_numpy_support =
     \<lparr>get_vtk_array_type = (\<lambda>d. case d of
          np_uint8 \<Rightarrow> Some VTK_UNSIGNED_CHAR
        | np_uint16 \<Rightarrow> Some VTK_UNSIGNED_SHORT
        | np_uint32 \<Rightarrow> Some VTK_UNSIGNED_INT
        | np_uint64 \<Rightarrow> Some VTK_UNSIGNED_LONG_LONG
        | np_int8 \<Rightarrow> Some VTK_CHAR
        | np_int16 \<Rightarrow> Some VTK_SHORT
        | np_int32 \<Rightarrow> Some VTK_INT
        | np_int64 \<Rightarrow> Some VTK_LONG_LONG
        | np_float32 \<Rightarrow> Some VTK_FLOAT
        | np_float64 \<Rightarrow> Some VTK_DOUBLE
        | np_complex64 \<Rightarrow> Some VTK_FLOAT
        | np_complex128 \<Rightarrow> Some VTK_DOUBLE
        | _ \<Rightarrow> None),
      get_numpy_array_type = (\<lambda>t. case t of
          VTK_BIT \<Rightarrow> Some np_uint8
        | VTK_CHAR \<Rightarrow> Some np_int8
        | VTK_SIGNED_CHAR \<Rightarrow> Some np_int8
        | VTK_UNSIGNED_CHAR \<Rightarrow> Some np_uint8
        | VTK_SHORT \<Rightarrow> Some np_int16
        | VTK_UNSIGNED_SHORT \<Rightarrow> Some np_uint16
        | VTK_INT \<Rightarrow> Some np_int32
        | VTK_UNSIGNED_INT \<Rightarrow> Some np_uint32
        | VTK_LONG \<Rightarrow> Some np_int64
        | VTK_UNSIGNED_LONG \<Rightarrow> Some np_uint64
        | VTK_LONG_LONG \<Rightarrow> Some np_int64
        | VTK_UNSIGNED_LONG_LONG \<Rightarrow> Some np_uint64
        | VTK_ID_TYPE \<Rightarrow> Some np_int64
        | VTK_FLOAT \<Rightarrow> Some np_float32
        | VTK_DOUBLE \<Rightarrow> Some np_float64)\<rparr>"

text \<open>
  \<^verbatim>\<open>np.issubdtype(dtype, t)\<close> for a concrete scalar type \<open>t\<close>, which is all a table entry can
  be here: a concrete scalar type has no proper subtype.
\<close>

definition issubdtype :: "np_dtype \<Rightarrow> np_dtype \<Rightarrow> bool" where
  "issubdtype d t \<longleftrightarrow> d = t"

section \<open>VTK data arrays and images\<close>

text \<open>
  A \<^verbatim>\<open>vtkDataArray\<close>: its scalar type, the number of components of a tuple, the number of
  values it holds and where they are in the memory (\<open>None\<close> until it is given any).
\<close>

record vtkDataArray =
  data_type :: vtk_type
  number_of_components :: nat
  number_of_values :: nat
  void_pointer :: "nat option"

definition CreateDataArray :: "vtk_type \<Rightarrow> vtkDataArray" where
  "CreateDataArray t =
     \<lparr>data_type = t, number_of_components = 1, number_of_values = 0, void_pointer = None\<rparr>"

definition SetNumberOfComponents :: "vtkDataArray \<Rightarrow> nat \<Rightarrow> vtkDataArray" where
  "SetNumberOfComponents va n = va\<lparr>number_of_components := n\<rparr>"

text \<open>
  \<^verbatim>\<open>SetNumberOfTuples\<close> sizes the array; the storage it allocates is released again by
  \<^verbatim>\<open>SetVoidArray\<close> before anything reads it, so it is not recorded in the memory.
\<close>

definition SetNumberOfTuples :: "vtkDataArray \<Rightarrow> nat \<Rightarrow> vtkDataArray" where
  "SetNumberOfTuples va n = va\<lparr>number_of_values := n * number_of_components va\<rparr>"

definition GetNumberOfTuples :: "vtkDataArray \<Rightarrow> nat" where
  "GetNumberOfTuples va = number_of_values va div number_of_components va"

text \<open>\<^verbatim>\<open>SetVoidArray(buffer, size, 1)\<close>: the array now reads the caller's memory.\<close>

definition SetVoidArray :: "vtkDataArray \<Rightarrow> nat \<Rightarrow> nat \<Rightarrow> vtkDataArray" where
  "SetVoidArray va p n = va\<lparr>void_pointer := Some p, number_of_values := n\<rparr>"

text \<open>The values of a data array, read through the memory.\<close>

definition array_values :: "'a list \<Rightarrow> vtkDataArray \<Rightarrow> 'a list" where
  "array_values h va =
     (case void_pointer va of
        None \<Rightarrow> []
      | Some p \<Rightarrow> map (\<lambda>k. h ! (p + k)) [0..<number_of_values va])"

definition NewInstance :: "vtkDataArray \<Rightarrow> vtkDataArray" where
  "NewInstance va = CreateDataArray (data_type va)"

text \<open>
  \<^verbatim>\<open>dst.DeepCopy(src)\<close>: \<open>dst\<close> gets storage of its own, freshly allocated at the end of the
  memory, holding a copy of the values of \<open>src\<close>.
\<close>

definition DeepCopy :: "'a list \<Rightarrow> vtkDataArray \<Rightarrow> vtkDataArray \<Rightarrow> vtkDataArray \<times> 'a list" where
  "DeepCopy h dst src =
     (dst\<lparr>data_type := data_type src,
          number_of_components := number_of_components src,
          number_of_values := number_of_values src,
          void_pointer := Some (length h)\<rparr>,
      h @ array_values h src)"

text \<open>
  A \<^verbatim>\<open>vtkImageData\<close> or, when \<open>is_oriented\<close>, a \<^verbatim>\<open>slicer.vtkOrientedImageData\<close>: dimensions,
  the scalars of its point data and (for the oriented class) its direction vectors.
\<close>

record vtkImageData =
  is_oriented :: bool
  dimensions :: "nat list"
  scalars :: "vtkDataArray option"
  directions :: "real list list"

definition identity_directions :: "real list list" where
  "identity_directions = [[1, 0, 0], [0, 1, 0], [0, 0, 1]]"

definition new_vtkImageData :: vtkImageData where
  "new_vtkImageData =
     \<lparr>is_oriented = False, dimensions = [0, 0, 0], scalars = None,
      directions = identity_directions\<rparr>"

definition new_vtkOrientedImageData :: vtkImageData where
  "new_vtkOrientedImageData = new_vtkImageData\<lparr>is_oriented := True\<rparr>"

definition SetDimensions :: "vtkImageData \<Rightarrow> nat list \<Rightarrow> vtkImageData" where
  "SetDimensions img d = img\<lparr>dimensions := d\<rparr>"

definition SetScalars :: "vtkImageData \<Rightarrow> vtkDataArray \<Rightarrow> vtkImageData" where
  "SetScalars img va = img\<lparr>scalars := Some va\<rparr>"

definition SetDirections :: "vtkImageData \<Rightarrow> real list list \<Rightarrow> vtkImageData" where
  "SetDirections img d = img\<lparr>directions := d\<rparr>"

text \<open>The pixel values of an image: the values of its scalars, read through the memory.\<close>

definition image_values :: "'a list \<Rightarrow> vtkImageData \<Rightarrow> 'a list" where
  "image_values h img = (case scalars img of None \<Rightarrow> [] | Some va \<Rightarrow> array_values h va)"

section \<open>Grid-to-image conversion\<close>

text \<open>
  \<^verbatim>\<open>create_image_data_from_numpy_array(array, oriented, copy=True)\<close>, lines 10 to 63. The
  function reads the memory \<open>h\<close> and, when \<open>copy\<close> is set, allocates in it; it returns the
  image together with the memory after the call. Every failure happens before the first
  allocation, so an error leaves the memory as it was.
\<close>

definition create_image_data_from_numpy_array ::
  "numpy_support \<Rightarrow> 'a list \<Rightarrow> ndarray \<Rightarrow> bool \<Rightarrow> bool \<Rightarrow> py_error + (vtkImageData \<times> 'a list)" where
  "create_image_data_from_numpy_array ns h array oriented copy =
     (if length (shape array) \<noteq> 2 then
        Inl (ValueError (''2D array was expected; got '' @ str_nat (length (shape array)) @ ''D array''))
      else
        case get_vtk_array_type ns (dtype array) of
          None \<Rightarrow> Inl TypeError
        | Some vtk_type \<Rightarrow>
            if \<not> c_contiguous array then Inl (AssertionError 33)
            else
              let vtk_array = CreateDataArray vtk_type;
                  vtk_array = SetNumberOfComponents vtk_array 1;
                  vtk_array = SetNumberOfTuples vtk_array (array_size array)
              in
                case get_numpy_array_type ns vtk_type of
                  None \<Rightarrow> Inl KeyError
                | Some arr_dtype \<Rightarrow>
                    if \<not> (issubdtype (dtype array) arr_dtype \<or> dtype array = arr_dtype)
                    then Inl (AssertionError 43)
                    else
                      let array_flat = ravel array;
                          vtk_array = SetVoidArray vtk_array (data array_flat) (len array_flat);
                          (vtk_array, h) =
                            (if copy then DeepCopy h (NewInstance vtk_array) vtk_array
                             else (vtk_array, h));
                          imageData =
                            (if oriented then new_vtkOrientedImageData else new_vtkImageData);
                          imageData = SetDimensions imageData [shape array ! 0, shape array ! 1, 1];
                          imageData = SetScalars imageData vtk_array
                      in Inr (imageData, h))"

section \<open>The host scene\<close>

text \<open>
  The scene (\<^verbatim>\<open>slicer.mrmlScene\<close>) is the list of the nodes added so far; a node is referred
  to by its position. The world the functions run in is the memory, the scene and the
  storage nodes that were created outside the scene.
\<close>

record volume_node =
  vn_name :: string
  vn_origin :: "real list"
  vn_spacing :: "real list"
  vn_ijk_to_ras_directions :: "real list list"
  vn_image_data :: "vtkImageData option"
  vn_display_node :: "nat option"

record segment =
  segment_name :: string
  binary_labelmap :: vtkImageData

record segmentation_node =
  sn_name :: string
  sn_reference_geometry :: "(real list list \<times> real list \<times> real list) option"
  sn_display_node :: "nat option"
  sn_segments :: "segment list"

datatype node =
    vtkMRMLScalarVolumeNode volume_node
  | vtkMRMLScalarVolumeDisplayNode
  | vtkMRMLSegmentationNode segmentation_node
  | vtkMRMLSegmentationDisplayNode

record 'a world =
  heap :: "'a list"
  scene :: "node list"
  storage_nodes :: "nat list"

text \<open>A node as the host creates it: origin zero, unit spacing, identity directions.\<close>

definition new_volume_node :: "string \<Rightarrow> volume_node" where
  "new_volume_node name =
     \<lparr>vn_name = name, vn_origin = [0, 0, 0], vn_spacing = [1, 1, 1],
      vn_ijk_to_ras_directions = identity_directions, vn_image_data = None,
      vn_display_node = None\<rparr>"

definition new_segmentation_node :: "string \<Rightarrow> segmentation_node" where
  "new_segmentation_node name =
     \<lparr>sn_name = name, sn_reference_geometry = None, sn_display_node = None,
      sn_segments = []\<rparr>"

text \<open>
  \<^verbatim>\<open>mrmlScene.AddNewNodeByClass(class, name)\<close>: the new node is appended to the scene and
  returned. The class is given as the fresh node of that class.
\<close>

definition AddNewNodeByClass :: "node list \<Rightarrow> node \<Rightarrow> nat \<times> node list" where
  "AddNewNodeByClass sc n = (length sc, sc @ [n])"

definition map_volume_node :: "(volume_node \<Rightarrow> volume_node) \<Rightarrow> nat \<Rightarrow> node list \<Rightarrow> node list" where
  "map_volume_node f i sc =
     (case sc ! i of
        vtkMRMLScalarVolumeNode vn \<Rightarrow> sc[i := vtkMRMLScalarVolumeNode (f vn)]
      | _ \<Rightarrow> sc)"

definition map_segmentation_node ::
  "(segmentation_node \<Rightarrow> segmentation_node) \<Rightarrow> nat \<Rightarrow> node list \<Rightarrow> node list" where
  "map_segmentation_node f i sc =
     (case sc ! i of
        vtkMRMLSegmentationNode sn \<Rightarrow> sc[i := vtkMRMLSegmentationNode (f sn)]
      | _ \<Rightarrow> sc)"

definition SetOrigin :: "node list \<Rightarrow> nat \<Rightarrow> real list \<Rightarrow> node list" where
  "SetOrigin sc i v = map_volume_node (\<lambda>vn. vn\<lparr>vn_origin := v\<rparr>) i sc"

definition SetSpacing :: "node list \<Rightarrow> nat \<Rightarrow> real list \<Rightarrow> node list" where
  "SetSpacing sc i v = map_volume_node (\<lambda>vn. vn\<lparr>vn_spacing := v\<rparr>) i sc"

definition SetIJKToRASDirections :: "node list \<Rightarrow> nat \<Rightarrow> real list list \<Rightarrow> node list" where
  "SetIJKToRASDirections sc i d = map_volume_node (\<lambda>vn. vn\<lparr>vn_ijk_to_ras_directions := d\<rparr>) i sc"

definition SetAndObserveImageData :: "node list \<Rightarrow> nat \<Rightarrow> vtkImageData \<Rightarrow> node list" where
  "SetAndObserveImageData sc i img = map_volume_node (\<lambda>vn. vn\<lparr>vn_image_data := Some img\<rparr>) i sc"

text \<open>
  \<^verbatim>\<open>CreateDefaultDisplayNodes\<close>: unless the node has a display node already, one of the
  node's display class is added to the scene and the node refers to it.
\<close>

definition CreateDefaultDisplayNodes :: "node list \<Rightarrow> nat \<Rightarrow> node list" where
  "CreateDefaultDisplayNodes sc i =
     (case sc ! i of
        vtkMRMLScalarVolumeNode vn \<Rightarrow>
          (if vn_display_node vn = None
           then (sc @ [vtkMRMLScalarVolumeDisplayNode])
                  [i := vtkMRMLScalarVolumeNode (vn\<lparr>vn_display_node := Some (length sc)\<rparr>)]
           else sc)
      | vtkMRMLSegmentationNode sn \<Rightarrow>
          (if sn_display_node sn = None
           then (sc @ [vtkMRMLSegmentationDisplayNode])
                  [i := vtkMRMLSegmentationNode (sn\<lparr>sn_display_node := Some (length sc)\<rparr>)]
           else sc)
      | _ \<Rightarrow> sc)"

text \<open>
  \<^verbatim>\<open>CreateDefaultStorageNode\<close> creates a storage node outside the scene and leaves its
  caller one reference to it; \<^verbatim>\<open>UnRegister\<close> gives that reference up (line 87). The world
  records, for each storage node created, the references still held that way.
\<close>

definition CreateDefaultStorageNode :: "nat list \<Rightarrow> nat \<times> nat list" where
  "CreateDefaultStorageNode sts = (length sts, sts @ [1])"

definition UnRegister :: "nat list \<Rightarrow> nat \<Rightarrow> nat list" where
  "UnRegister sts i = sts[i := sts ! i - 1]"

section \<open>Volume registration\<close>

text \<open>
  \<^verbatim>\<open>create_volume_node_from_numpy_array(array, ijk_to_ras_directions, node_name)\<close>, lines 66
  to 89. The conversion is called with \<^verbatim>\<open>oriented=False\<close> and the default \<^verbatim>\<open>copy=True\<close>;
  when it raises, the exception leaves the function at line 77, before the scene is
  touched. The result is the new node's position in the scene.
\<close>

definition create_volume_node_from_numpy_array ::
  "numpy_support \<Rightarrow> 'a world \<Rightarrow> ndarray \<Rightarrow> real list list \<Rightarrow> string \<Rightarrow> (py_error + nat) \<times> 'a world" where
  "create_volume_node_from_numpy_array ns w array ijk_to_ras_directions node_name =
     (case create_image_data_from_numpy_array ns (heap w) array False True of
        Inl e \<Rightarrow> (Inl e, w)
      | Inr (imageData, h) \<Rightarrow>
          let (volumeNode, sc) =
                AddNewNodeByClass (scene w) (vtkMRMLScalarVolumeNode (new_volume_node node_name));
              sc = SetOrigin sc volumeNode [0, 0, 0];
              sc = SetSpacing sc volumeNode [1, 1, 1];
              sc = SetIJKToRASDirections sc volumeNode ijk_to_ras_directions;
              sc = SetAndObserveImageData sc volumeNode imageData;
              sc = CreateDefaultDisplayNodes sc volumeNode;
              (defaultStorageNode, sts) = CreateDefaultStorageNode (storage_nodes w);
              sts = UnRegister sts defaultStorageNode
          in (Inr volumeNode, \<lparr>heap = h, scene = sc, storage_nodes = sts\<rparr>))"

section \<open>Segmentation registration\<close>

text \<open>
  \<^verbatim>\<open>(array == class_label).astype('int8')\<close>, line 110: a fresh array of the same shape
  with 1 where the element equals the label and 0 elsewhere. numpy allocates the result
  in the memory order of its operand (order \<^verbatim>\<open>'K'\<close>): for a two-dimensional operand that
  is column-major when the first axis has the smaller non-zero stride, and row-major
  otherwise. For other ranks the layout is never read (the conversion rejects the
  array on its shape alone) and is taken row-major.
\<close>

fun c_strides :: "nat list \<Rightarrow> int list" where
  "c_strides [] = []"
| "c_strides (n # ns) = int (prod_list ns) # c_strides ns"

definition keeps_fortran_order :: "ndarray \<Rightarrow> bool" where
  "keeps_fortran_order a =
     (case (shape a, strides a) of
        ([r, c], [s0, s1]) \<Rightarrow> s0 \<noteq> 0 \<and> s1 \<noteq> 0 \<and> \<bar>s0\<bar> < \<bar>s1\<bar>
      | _ \<Rightarrow> False)"

definition eq_astype_int8 :: "'a::zero_neq_one list \<Rightarrow> ndarray \<Rightarrow> 'a \<Rightarrow> ndarray \<times> 'a list" where
  "eq_astype_int8 h a v =
     (let f = keeps_fortran_order a;
          out = \<lparr>shape = shape a,
                 strides = (if f then [1, int (shape a ! 0)] else c_strides (shape a)),
                 dtype = np_int8,
                 data = length h\<rparr>;
          memory_order = (if f then map rev (indices (rev (shape a))) else indices (shape a))
      in (out, h @ map (\<lambda>idx. if getitem h a idx = v then 1 else 0) memory_order))"

text \<open>
  \<^verbatim>\<open>segNode.AddSegmentFromBinaryLabelmapRepresentation(image, name)\<close>: a new segment with
  that labelmap and name is appended to the node's segments.
\<close>

definition AddSegmentFromBinaryLabelmapRepresentation ::
  "node list \<Rightarrow> nat \<Rightarrow> vtkImageData \<Rightarrow> string \<Rightarrow> node list" where
  "AddSegmentFromBinaryLabelmapRepresentation sc i img name =
     map_segmentation_node
       (\<lambda>sn. sn\<lparr>sn_segments := sn_segments sn @ [\<lparr>segment_name = name, binary_labelmap = img\<rparr>]\<rparr>)
       i sc"

definition SetReferenceImageGeometryParameterFromVolumeNode ::
  "node list \<Rightarrow> nat \<Rightarrow> volume_node \<Rightarrow> node list" where
  "SetReferenceImageGeometryParameterFromVolumeNode sc i vn =
     map_segmentation_node
       (\<lambda>sn. sn\<lparr>sn_reference_geometry :=
                  Some (vn_ijk_to_ras_directions vn, vn_origin vn, vn_spacing vn)\<rparr>)
       i sc"

text \<open>
  The loop of lines 109 to 113 over \<^verbatim>\<open>class_names.keys()\<close>. The dictionary is an association
  list in its iteration order. An exception of the conversion leaves the loop with the
  segmentation node, and the segments added so far, in the scene.
\<close>

fun add_segments ::
  "numpy_support \<Rightarrow> ndarray \<Rightarrow> ('a::zero_neq_one \<times> string) list \<Rightarrow> real list list \<Rightarrow> nat \<Rightarrow>
   'a list \<Rightarrow> 'a world \<Rightarrow> (py_error + unit) \<times> 'a world" where
  "add_segments ns array class_names ijk_to_ras_directions segNode [] w = (Inr (), w)"
| "add_segments ns array class_names ijk_to_ras_directions segNode (class_label # keys) w =
     (let (binary_labelmap_array, h) = eq_astype_int8 (heap w) array class_label
      in case create_image_data_from_numpy_array ns h binary_labelmap_array True True of
           Inl e \<Rightarrow> (Inl e, w\<lparr>heap := h\<rparr>)
         | Inr (orientedImageData, h) \<Rightarrow>
             let orientedImageData = SetDirections orientedImageData ijk_to_ras_directions
             in case map_of class_names class_label of
                  None \<Rightarrow> (Inl KeyError, w\<lparr>heap := h\<rparr>)
                | Some name \<Rightarrow>
                    add_segments ns array class_names ijk_to_ras_directions segNode keys
                      (w\<lparr>heap := h,
                         scene := AddSegmentFromBinaryLabelmapRepresentation (scene w) segNode
                                    orientedImageData name\<rparr>))"

text \<open>
  \<^verbatim>\<open>create_segmentation_node_from_numpy_array(array, class_names, node_name, vol_node)\<close>,
  lines 92 to 114. The reference volume node is only read, so it is passed by value; its
  directions are what \<^verbatim>\<open>GetIJKToRASDirections\<close> writes into the fresh 3 by 3 array.
\<close>

definition create_segmentation_node_from_numpy_array ::
  "numpy_support \<Rightarrow> 'a::zero_neq_one world \<Rightarrow> ndarray \<Rightarrow> ('a \<times> string) list \<Rightarrow> string \<Rightarrow>
   volume_node \<Rightarrow> (py_error + nat) \<times> 'a world" where
  "create_segmentation_node_from_numpy_array ns w array class_names node_name vol_node =
     (let ijk_to_ras_directions = vn_ijk_to_ras_directions vol_node;
          (segNode, sc) =
            AddNewNodeByClass (scene w) (vtkMRMLSegmentationNode (new_segmentation_node node_name));
          sc = SetReferenceImageGeometryParameterFromVolumeNode sc segNode vol_node;
          sc = CreateDefaultDisplayNodes sc segNode
      in case add_segments ns array class_names ijk_to_ras_directions segNode
                (map fst class_names) (w\<lparr>scene := sc\<rparr>) of
           (Inl e, w') \<Rightarrow> (Inl e, w')
         | (Inr _, w') \<Rightarrow> (Inr segNode, w'))"

text \<open>The segments of the segmentation node at a position of the scene.\<close>

definition segments_of :: "node list \<Rightarrow> nat \<Rightarrow> segment list" where
  "segments_of sc i = (case sc ! i of vtkMRMLSegmentationNode sn \<Rightarrow> sn_segments sn | _ \<Rightarrow> [])"

definition volume_node_of :: "node list \<Rightarrow> nat \<Rightarrow> volume_node option" where
  "volume_node_of sc i =
     (if i < length sc then
        (case sc ! i of vtkMRMLScalarVolumeNode vn \<Rightarrow> Some vn | _ \<Rightarrow> None)
      else None)"

text \<open>
  The image the conversion builds for a grid of \<open>r\<close> rows and \<open>c\<close> columns whose scalars
  are read at address \<open>p\<close>.
\<close>

definition converted_image :: "bool \<Rightarrow> vtk_type \<Rightarrow> nat \<Rightarrow> nat \<Rightarrow> nat \<Rightarrow> vtkImageData" where
  "converted_image oriented t r c p =
     \<lparr>is_oriented = oriented, dimensions = [r, c, 1],
      scalars = Some \<lparr>data_type = t, number_of_components = 1, number_of_values = r * c,
                      void_pointer = Some p\<rparr>,
      directions = identity_directions\<rparr>"

text \<open>
  The binary mask of a label over a list of values: 1 where the value is the label and 0
  elsewhere.
\<close>

definition binary_mask :: "'a::zero_neq_one \<Rightarrow> 'a list \<Rightarrow> 'a list" where
  "binary_mask v xs = map (\<lambda>x. if x = v then 1 else 0) xs"

text \<open>
  A sequence of item assignments \<^verbatim>\<open>array[idx] = v\<close>, applied to the memory in order.
\<close>

definition assign_all :: "'a list \<Rightarrow> ndarray \<Rightarrow> (nat list \<times> 'a) list \<Rightarrow> 'a list" where
  "assign_all h a writes = fold (\<lambda>(idx, v) m. setitem m a idx v) writes h"

section \<open>Example inputs\<close>

text \<open>
  A memory of seven cells and the grid \<^verbatim>\<open>[[0, 1, 1], [2, 0, 1]]\<close> of dtype \<^verbatim>\<open>int16\<close> that
  starts at its second cell; the transpose of that grid, a view on the same cells that
  is not C-contiguous; and a world with that memory and an empty scene.
\<close>

definition example_memory :: "int list" where
  "example_memory = [7, 0, 1, 1, 2, 0, 1]"

definition example_grid :: ndarray where
  "example_grid = \<lparr>shape = [2, 3], strides = [3, 1], dtype = np_int16, data = 1\<rparr>"

definition example_transposed :: ndarray where
  "example_transposed = \<lparr>shape = [3, 2], strides = [1, 3], dtype = np_int16, data = 1\<rparr>"

definition example_world :: "int world" where
  "example_world = \<lparr>heap = example_memory, scene = [], storage_nodes = []\<rparr>"

section \<open>Two-dimensional arrays in memory\<close>

lemma concat_map_upt_length:
  "length (concat (map (\<lambda>i. map (f i) [0..<c]) [0..<r])) = r * c"
  by (induction r) simp_all

lemma concat_map_upt_nth:
  "i < r \<Longrightarrow> j < c \<Longrightarrow> concat (map (\<lambda>i. map (f i) [0..<c]) [0..<r]) ! (i * c + j) = f i j"
proof (induction r)
  case 0
  then show ?case by simp
next
  case (Suc r)
  let ?front = "concat (map (\<lambda>i. map (f i) [0..<c]) [0..<r])"
  have len: "length ?front = r * c" by (rule concat_map_upt_length)
  show ?case
  proof (cases "i < r")
    case True
    have "i * c + j < r * c"
    proof -
      have "i * c + j < i * c + c" using Suc.prems by simp
      also have "\<dots> = Suc i * c" by simp
      also have "\<dots> \<le> r * c" using True by (intro mult_le_mono1) simp
      finally show ?thesis .
    qed
    then show ?thesis using Suc.IH True Suc.prems len by (simp add: nth_append)
  next
    case False
    then have "i = r" using Suc.prems by simp
    then show ?thesis using Suc.prems len by (simp add: nth_append)
  qed
qed

lemma indices_2d:
  "indices [r, c] = concat (map (\<lambda>i. map (\<lambda>j. [i, j]) [0..<c]) [0..<r])"
  by (simp add: comp_def)

lemma length_indices_2d: "length (indices [r, c]) = r * c"
  unfolding indices_2d by (rule concat_map_upt_length)

lemma indices_2d_nth: "i < r \<Longrightarrow> j < c \<Longrightarrow> indices [r, c] ! (i * c + j) = [i, j]"
  unfolding indices_2d by (rule concat_map_upt_nth)

lemma set_indices_2d: "set (indices [r, c]) = {[i, j] | i j. i < r \<and> j < c}"
  by (auto simp: comp_def)

lemma indices_2d_nth_divmod:
  assumes "k < r * c"
  shows "indices [r, c] ! k = [k div c, k mod c]"
proof -
  have c: "0 < c" using assms by (cases c) auto
  have "k div c < r" using assms c by (simp add: less_mult_imp_div_less)
  moreover have "k mod c < c" using c by simp
  ultimately have "indices [r, c] ! (k div c * c + k mod c) = [k div c, k mod c]"
    by (rule indices_2d_nth)
  then show ?thesis by simp
qed

lemma c_contiguous_2d:
  assumes "shape a = [r, c]" "strides a = [s0, s1]" "0 < r" "0 < c"
  shows "c_contiguous a \<longleftrightarrow> (c = 1 \<or> s1 = 1) \<and> (r = 1 \<or> s0 = int c)"
  using assms by (auto simp: c_contiguous_def)

lemma elem_addr_2d:
  "strides a = [s0, s1] \<Longrightarrow> elem_addr a [i, j] = int (data a) + int i * s0 + int j * s1"
  by (simp add: elem_addr_def)

lemma elem_addr_contiguous:
  assumes "shape a = [r, c]" "length (strides a) = 2" "c_contiguous a" "i < r" "j < c"
  shows "elem_addr a [i, j] = int (data a + i * c + j)"
proof -
  obtain s0 s1 where st: "strides a = [s0, s1]"
    using assms(2) by (cases "strides a"; cases "tl (strides a)") auto
  have pos: "0 < r" "0 < c" using assms(4,5) by auto
  have cc: "(c = 1 \<or> s1 = 1) \<and> (r = 1 \<or> s0 = int c)"
    using c_contiguous_2d [OF assms(1) st pos] assms(3) by simp
  have b: "int j * s1 = int j" using cc assms(5) by auto
  have a: "int i * s0 = int i * int c" using cc assms(4) by auto
  show ?thesis by (simp add: elem_addr_2d [OF st] a b)
qed

lemma elements_contiguous:
  assumes "shape a = [r, c]" "length (strides a) = 2" "c_contiguous a"
  shows "elements h a = map (\<lambda>k. h ! (data a + k)) [0..<r * c]"
proof (rule nth_equalityI)
  show "length (elements h a) = length (map (\<lambda>k. h ! (data a + k)) [0..<r * c])"
    by (simp add: elements_def assms(1) length_indices_2d del: indices.simps)
next
  fix k assume "k < length (elements h a)"
  then have k: "k < r * c" by (simp add: elements_def assms(1) length_indices_2d del: indices.simps)
  have c: "0 < c" using k by (cases c) auto
  have dv: "k div c < r" using k c by (simp add: less_mult_imp_div_less)
  have md: "k mod c < c" using c by simp
  have "elem_addr a [k div c, k mod c] = int (data a + k div c * c + k mod c)"
    by (rule elem_addr_contiguous [OF assms dv md])
  then have "nat (elem_addr a [k div c, k mod c]) = data a + k" by (simp add: add.assoc)
  then show "elements h a ! k = map (\<lambda>k. h ! (data a + k)) [0..<r * c] ! k"
    using k by (simp add: elements_def assms(1) length_indices_2d indices_2d_nth_divmod getitem_def
        del: indices.simps)
qed

lemma create_image_data_copy:
  assumes "shape a = [r, c]" "get_vtk_array_type ns (dtype a) = Some t" "c_contiguous a"
    "get_numpy_array_type ns t = Some (dtype a)"
  shows "create_image_data_from_numpy_array ns h a oriented True =
    Inr (converted_image oriented t r c (length h), h @ map (\<lambda>k. h ! (data a + k)) [0..<r * c])"
  using assms
  by (simp add: create_image_data_from_numpy_array_def converted_image_def Let_def
      CreateDataArray_def SetNumberOfComponents_def SetNumberOfTuples_def SetVoidArray_def
      ravel_def len_def array_size_def DeepCopy_def NewInstance_def array_values_def
      new_vtkOrientedImageData_def new_vtkImageData_def SetDimensions_def SetScalars_def
      issubdtype_def)

lemma create_image_data_view:
  assumes "shape a = [r, c]" "get_vtk_array_type ns (dtype a) = Some t" "c_contiguous a"
    "get_numpy_array_type ns t = Some (dtype a)"
  shows "create_image_data_from_numpy_array ns h a oriented False =
    Inr (converted_image oriented t r c (data a), h)"
  using assms
  by (simp add: create_image_data_from_numpy_array_def converted_image_def Let_def
      CreateDataArray_def SetNumberOfComponents_def SetNumberOfTuples_def SetVoidArray_def
      ravel_def len_def array_size_def 
      new_vtkOrientedImageData_def new_vtkImageData_def SetDimensions_def SetScalars_def
      issubdtype_def)

lemma create_image_data_returns:
  assumes "shape a = [r, c]" "get_vtk_array_type ns (dtype a) = Some t" "c_contiguous a"
    "get_numpy_array_type ns t = Some (dtype a)"
  shows "create_image_data_from_numpy_array ns h a oriented copy =
    (if copy
     then Inr (converted_image oriented t r c (length h), h @ map (\<lambda>k. h ! (data a + k)) [0..<r * c])
     else Inr (converted_image oriented t r c (data a), h))"
  using create_image_data_copy [OF assms] create_image_data_view [OF assms] by (cases copy) simp_all

lemma image_values_converted_copy:
  "image_values (h @ xs) (converted_image oriented t r c (length h)) =
     map (\<lambda>k. xs ! k) [0..<r * c]"
  by (simp add: image_values_def converted_image_def array_values_def)

lemma image_values_converted_view:
  "image_values h (converted_image oriented t r c p) = map (\<lambda>k. h ! (p + k)) [0..<r * c]"
  by (simp add: image_values_def converted_image_def array_values_def)

lemma valid_array_addr:
  "valid_array h a \<Longrightarrow> idx \<in> set (indices (shape a)) \<Longrightarrow> nat (elem_addr a idx) < length h"
  by (auto simp: valid_array_def list_all_iff)

lemma assign_all_keeps_suffix:
  assumes "valid_array h a" "list_all (\<lambda>(idx, v). idx \<in> set (indices (shape a))) writes"
  shows "drop (length h) (assign_all m a writes) = drop (length h) m \<and>
         length (assign_all m a writes) = length m"
  using assms(2)
proof (induction writes arbitrary: m)
  case Nil
  then show ?case by (simp add: assign_all_def)
next
  case (Cons w writes)
  obtain idx v where w: "w = (idx, v)" by (cases w)
  have "nat (elem_addr a idx) < length h"
    using Cons.prems w valid_array_addr [OF assms(1)] by simp
  then have "drop (length h) (setitem m a idx v) = drop (length h) m"
    by (simp add: setitem_def drop_update_cancel)
  moreover have "length (setitem m a idx v) = length m" by (simp add: setitem_def)
  moreover have "assign_all m a (w # writes) = assign_all (setitem m a idx v) a writes"
    by (simp add: assign_all_def w)
  ultimately show ?case using Cons.IH [of "setitem m a idx v"] Cons.prems by simp
qed

lemma image_values_suffix:
  assumes "length h \<le> length m"
  shows "image_values m (converted_image oriented t r c (length h)) =
     map ((!) (drop (length h) m)) [0..<r * c]"
  using assms by (simp add: image_values_converted_view)

section \<open>Facts about the example inputs\<close>

lemma example_grid_contiguous: "c_contiguous example_grid"
  by (simp add: example_grid_def c_contiguous_def)

lemma example_grid_supported:
  "get_vtk_array_type vtk_numpy_support (dtype example_grid) = Some VTK_SHORT"
  "get_numpy_array_type vtk_numpy_support VTK_SHORT = Some (dtype example_grid)"
  by (simp_all add: example_grid_def vtk_numpy_support_def)

lemma example_grid_shape: "shape example_grid = [2, 3]" "length (strides example_grid) = 2"
  by (simp_all add: example_grid_def)

lemma example_grid_valid: "valid_array example_memory example_grid"
  by (simp add: valid_array_def example_grid_def example_memory_def elem_addr_def
      upt_conv_Cons)

lemma example_grid_elements: "elements example_memory example_grid = [0, 1, 1, 2, 0, 1]"
  by (simp add: elements_def getitem_def example_grid_def example_memory_def elem_addr_def
      upt_conv_Cons)

section \<open>Rank check\<close>

text \<open>
  C4. An array whose number of dimensions is not 2 is rejected with a \<^verbatim>\<open>ValueError\<close> whose
  message names the rank that was found, whatever its dtype, layout and the two flags
  are; no image is returned.
\<close>

theorem rank_not_2_value_error:
  "length (shape array) \<noteq> 2 \<Longrightarrow>
   create_image_data_from_numpy_array ns h array oriented copy =
     Inl (ValueError (''2D array was expected; got '' @ str_nat (length (shape array)) @ ''D array''))"
  by (simp add: create_image_data_from_numpy_array_def)

theorem rank_not_2_value_error_witness:
  "length (shape \<lparr>shape = [2, 3, 4], strides = [12, 4, 1], dtype = np_float64, data = 0\<rparr>) \<noteq> 2 \<and>
   create_image_data_from_numpy_array vtk_numpy_support ([] :: int list)
     \<lparr>shape = [2, 3, 4], strides = [12, 4, 1], dtype = np_float64, data = 0\<rparr> False True =
     Inl (ValueError ''2D array was expected; got 3D array'')"
  using rank_not_2_value_error [of "\<lparr>shape = [2, 3, 4], strides = [12, 4, 1], dtype = np_float64, data = 0\<rparr>"
      vtk_numpy_support "[] :: int list" False True]
  by (simp add: str_nat.simps digit_char_def)

section \<open>Dimensions and contents of the image\<close>

text \<open>
  C2. For a C-contiguous grid of shape \<open>(rows, cols)\<close> whose dtype is supported (the host
  maps it to a VTK type and that type back to the same dtype), the conversion returns an
  image, with either value of the two flags, and the image reports the dimensions
  \<open>[rows, cols, 1]\<close>.
\<close>

theorem image_dimensions:
  assumes "shape array = [rows, cols]"
    and "get_vtk_array_type ns (dtype array) = Some t"
    and "get_numpy_array_type ns t = Some (dtype array)"
    and "c_contiguous array"
  shows "\<exists>img h'. create_image_data_from_numpy_array ns h array oriented copy = Inr (img, h') \<and>
           dimensions img = [rows, cols, 1]"
  using create_image_data_returns [OF assms(1,2,4,3), of h oriented copy]
  by (cases copy) (simp_all add: converted_image_def)

theorem image_dimensions_witness:
  "shape example_grid = [2, 3] \<and>
   get_vtk_array_type vtk_numpy_support (dtype example_grid) = Some VTK_SHORT \<and>
   get_numpy_array_type vtk_numpy_support VTK_SHORT = Some (dtype example_grid) \<and>
   c_contiguous example_grid \<and>
   (\<exists>img h'. create_image_data_from_numpy_array vtk_numpy_support example_memory example_grid
                 False True = Inr (img, h') \<and>
             dimensions img = [2, 3, 1])"
  using image_dimensions [OF example_grid_shape(1) example_grid_supported example_grid_contiguous,
      of example_memory False True]
    example_grid_shape example_grid_supported example_grid_contiguous
  by blast

text \<open>
  C8. For such a grid the scalars of the returned image are \<open>rows * cols\<close> tuples of one
  component, and their values, read in the memory after the call, are the values of the
  grid in row-major order.
\<close>

theorem image_scalars_row_major:
  assumes "shape array = [rows, cols]" "length (strides array) = 2"
    and "get_vtk_array_type ns (dtype array) = Some t"
    and "get_numpy_array_type ns t = Some (dtype array)"
    and "c_contiguous array"
  shows "\<exists>img h' va. create_image_data_from_numpy_array ns h array oriented copy = Inr (img, h') \<and>
           scalars img = Some va \<and> number_of_components va = 1 \<and>
           GetNumberOfTuples va = rows * cols \<and>
           array_values h' va = elements h array"
proof (cases copy)
  case True
  let ?xs = "map (\<lambda>k. h ! (data array + k)) [0..<rows * cols]"
  let ?va = "\<lparr>data_type = t, number_of_components = 1, number_of_values = rows * cols,
                      void_pointer = Some (length h)\<rparr>"
  have "create_image_data_from_numpy_array ns h array oriented copy =
      Inr (converted_image oriented t rows cols (length h), h @ ?xs)"
    using create_image_data_copy [OF assms(1,3,5,4)] True by simp
  moreover have "scalars (converted_image oriented t rows cols (length h)) = Some ?va"
    by (simp add: converted_image_def)
  moreover have "GetNumberOfTuples ?va = rows * cols" by (simp add: GetNumberOfTuples_def)
  moreover have "array_values (h @ ?xs) ?va = elements h array"
    by (simp add: array_values_def elements_contiguous [OF assms(1,2,5)] cong: map_cong)
  ultimately show ?thesis by simp
next
  case False
  let ?va = "\<lparr>data_type = t, number_of_components = 1, number_of_values = rows * cols,
                      void_pointer = Some (data array)\<rparr>"
  have "create_image_data_from_numpy_array ns h array oriented copy =
      Inr (converted_image oriented t rows cols (data array), h)"
    using create_image_data_view [OF assms(1,3,5,4)] False by simp
  moreover have "scalars (converted_image oriented t rows cols (data array)) = Some ?va"
    by (simp add: converted_image_def)
  moreover have "GetNumberOfTuples ?va = rows * cols" by (simp add: GetNumberOfTuples_def)
  moreover have "array_values h ?va = elements h array"
    by (simp add: array_values_def elements_contiguous [OF assms(1,2,5)])
  ultimately show ?thesis by simp
qed

theorem image_scalars_row_major_witness:
  "shape example_grid = [2, 3] \<and> length (strides example_grid) = 2 \<and>
   get_vtk_array_type vtk_numpy_support (dtype example_grid) = Some VTK_SHORT \<and>
   get_numpy_array_type vtk_numpy_support VTK_SHORT = Some (dtype example_grid) \<and>
   c_contiguous example_grid \<and>
   (\<exists>img h' va. create_image_data_from_numpy_array vtk_numpy_support example_memory example_grid
                 False True = Inr (img, h') \<and>
           scalars img = Some va \<and> number_of_components va = 1 \<and>
           GetNumberOfTuples va = 2 * 3 \<and>
           array_values h' va = [0, 1, 1, 2, 0, 1])"
  using image_scalars_row_major [OF example_grid_shape example_grid_supported
      example_grid_contiguous, of example_memory False True]
    example_grid_shape example_grid_supported example_grid_contiguous
  unfolding example_grid_elements
  by blast

section \<open>The copy option\<close>

text \<open>
  C3. With \<^verbatim>\<open>copy=True\<close> (the default, which both callers in the module rely on) the
  conversion of a valid grid returns an image whose values are the same before and
  after any sequence of assignments to elements of the source grid.
\<close>

theorem copy_isolates_image:
  assumes "shape array = [rows, cols]"
    and "get_vtk_array_type ns (dtype array) = Some t"
    and "get_numpy_array_type ns t = Some (dtype array)"
    and "c_contiguous array"
    and "valid_array h array"
    and "list_all (\<lambda>(idx, v). idx \<in> set (indices (shape array))) writes"
  shows "\<exists>img h'. create_image_data_from_numpy_array ns h array oriented True = Inr (img, h') \<and>
           image_values (assign_all h' array writes) img = image_values h' img"
proof -
  let ?h' = "h @ map (\<lambda>k. h ! (data array + k)) [0..<rows * cols]"
  let ?img = "converted_image oriented t rows cols (length h)"
  have res: "create_image_data_from_numpy_array ns h array oriented True = Inr (?img, ?h')"
    by (rule create_image_data_copy [OF assms(1,2,4,3)])
  have keep: "drop (length h) (assign_all ?h' array writes) = drop (length h) ?h'"
    and len: "length (assign_all ?h' array writes) = length ?h'"
    using assign_all_keeps_suffix [OF assms(5,6), of ?h'] by simp_all
  have "image_values (assign_all ?h' array writes) ?img =
      map ((!) (drop (length h) (assign_all ?h' array writes))) [0..<rows * cols]"
    by (rule image_values_suffix) (simp add: len)
  also have "\<dots> = map ((!) (drop (length h) ?h')) [0..<rows * cols]"
    by (simp only: keep)
  also have "\<dots> = image_values ?h' ?img"
    by (rule image_values_suffix [symmetric]) simp
  finally show ?thesis using res by blast
qed

theorem copy_isolates_image_witness:
  "shape example_grid = [2, 3] \<and>
   get_vtk_array_type vtk_numpy_support (dtype example_grid) = Some VTK_SHORT \<and>
   get_numpy_array_type vtk_numpy_support VTK_SHORT = Some (dtype example_grid) \<and>
   c_contiguous example_grid \<and>
   valid_array example_memory example_grid \<and>
   list_all (\<lambda>(idx, v). idx \<in> set (indices (shape example_grid))) [([0, 1], 5), ([1, 2], 8 :: int)] \<and>
   (\<exists>img h'. create_image_data_from_numpy_array vtk_numpy_support example_memory example_grid
                False True = Inr (img, h') \<and>
      image_values (assign_all h' example_grid [([0, 1], 5), ([1, 2], 8)]) img = image_values h' img)"
proof -
  have w: "list_all (\<lambda>(idx, v). idx \<in> set (indices (shape example_grid))) [([0, 1], 5), ([1, 2], 8 :: int)]"
    by (simp add: example_grid_def upt_conv_Cons)
  show ?thesis
    using copy_isolates_image [OF example_grid_shape(1) example_grid_supported
        example_grid_contiguous example_grid_valid w, of False]
      example_grid_shape example_grid_supported example_grid_contiguous example_grid_valid w
    by blast
qed

section \<open>The two assertions\<close>

text \<open>
  C5, as amended. The assertion of line 43 fails exactly for a two-dimensional
  C-contiguous grid whose dtype the host maps to a VTK type that it maps back to a
  different dtype. So it never fails for a dtype that is mapped back to itself, and it
  does fail for a dtype that is mapped but not mapped back.
\<close>

theorem roundtrip_assertion_iff:
  "create_image_data_from_numpy_array ns h array oriented copy = Inl (AssertionError 43) \<longleftrightarrow>
     length (shape array) = 2 \<and> c_contiguous array \<and>
     (\<exists>t d. get_vtk_array_type ns (dtype array) = Some t \<and>
            get_numpy_array_type ns t = Some d \<and> d \<noteq> dtype array)"
  by (auto simp: create_image_data_from_numpy_array_def Let_def issubdtype_def
      split: option.splits prod.splits)

theorem roundtrip_assertion_iff_witness:
  "create_image_data_from_numpy_array vtk_numpy_support example_memory example_grid False True
     \<noteq> Inl (AssertionError 43)"
  using roundtrip_assertion_iff [of vtk_numpy_support example_memory example_grid False True]
  by (simp add: example_grid_def vtk_numpy_support_def)

text \<open>
  C5 as stated fails: VTK's table maps \<^verbatim>\<open>complex64\<close> to \<^verbatim>\<open>VTK_FLOAT\<close>, which is mapped
  back to \<^verbatim>\<open>float32\<close>, and the assertion fails for the example grid with that dtype.
\<close>

theorem roundtrip_assertion_counterexample:
  "length (shape (example_grid\<lparr>dtype := np_complex64\<rparr>)) = 2 \<and>
   c_contiguous (example_grid\<lparr>dtype := np_complex64\<rparr>) \<and>
   get_vtk_array_type vtk_numpy_support (dtype (example_grid\<lparr>dtype := np_complex64\<rparr>)) = Some VTK_FLOAT \<and>
   create_image_data_from_numpy_array vtk_numpy_support example_memory
     (example_grid\<lparr>dtype := np_complex64\<rparr>) False True = Inl (AssertionError 43)"
  by (simp add: create_image_data_from_numpy_array_def example_grid_def vtk_numpy_support_def
      c_contiguous_def issubdtype_def Let_def)

text \<open>
  C6. A two-dimensional grid whose dtype the host maps to a VTK type and that is not
  C-contiguous fails the assertion of line 33; no image is returned.
\<close>

theorem non_contiguous_assertion:
  "length (shape array) = 2 \<Longrightarrow> get_vtk_array_type ns (dtype array) = Some t \<Longrightarrow>
   \<not> c_contiguous array \<Longrightarrow>
   create_image_data_from_numpy_array ns h array oriented copy = Inl (AssertionError 33)"
  by (simp add: create_image_data_from_numpy_array_def)

theorem non_contiguous_assertion_witness:
  "length (shape example_transposed) = 2 \<and>
   get_vtk_array_type vtk_numpy_support (dtype example_transposed) = Some VTK_SHORT \<and>
   \<not> c_contiguous example_transposed \<and>
   create_image_data_from_numpy_array vtk_numpy_support example_memory example_transposed False True =
     Inl (AssertionError 33)"
proof -
  have a: "length (shape example_transposed) = 2" by (simp add: example_transposed_def)
  have b: "get_vtk_array_type vtk_numpy_support (dtype example_transposed) = Some VTK_SHORT"
    by (simp add: example_transposed_def vtk_numpy_support_def)
  have c: "\<not> c_contiguous example_transposed"
    by (simp add: example_transposed_def c_contiguous_def)
  show ?thesis using a b c non_contiguous_assertion [OF a b c] by blast
qed

section \<open>Volume registration: errors\<close>

text \<open>
  C10. When the array fails validation (its rank is not 2, its dtype has no VTK type or
  it is not C-contiguous), the volume registration raises the conversion's exception
  and the world, the scene included, is as it was before the call: the conversion runs
  before the node is created.
\<close>

theorem volume_node_error_leaves_world:
  assumes "length (shape array) \<noteq> 2 \<or> get_vtk_array_type ns (dtype array) = None \<or>
           \<not> c_contiguous array"
  shows "\<exists>e. create_image_data_from_numpy_array ns (heap w) array False True = Inl e \<and>
             create_volume_node_from_numpy_array ns w array ijk_to_ras_directions node_name =
               (Inl e, w)"
proof -
  have "\<exists>e. create_image_data_from_numpy_array ns (heap w) array False True = Inl e"
    using assms by (auto simp: create_image_data_from_numpy_array_def split: option.splits)
  then obtain e where "create_image_data_from_numpy_array ns (heap w) array False True = Inl e" ..
  then show ?thesis by (simp add: create_volume_node_from_numpy_array_def)
qed

theorem volume_node_error_leaves_world_witness:
  "\<not> c_contiguous example_transposed \<and>
   create_volume_node_from_numpy_array vtk_numpy_support example_world example_transposed
     identity_directions ''lung'' = (Inl (AssertionError 33), example_world)"
proof -
  have c: "\<not> c_contiguous example_transposed"
    by (simp add: example_transposed_def c_contiguous_def)
  then have a: "length (shape example_transposed) \<noteq> 2 \<or>
    get_vtk_array_type vtk_numpy_support (dtype example_transposed) = None \<or>
    \<not> c_contiguous example_transposed" by simp
  have e: "create_image_data_from_numpy_array vtk_numpy_support (heap example_world)
      example_transposed False True = Inl (AssertionError 33)"
    using c by (simp add: create_image_data_from_numpy_array_def example_transposed_def
        vtk_numpy_support_def)
  show ?thesis
    using volume_node_error_leaves_world [OF a, of example_world identity_directions "''lung''"] c e
    by auto
qed

section \<open>Volume registration: the node\<close>

lemma create_volume_node_returns:
  assumes "create_image_data_from_numpy_array ns (heap w) array False True = Inr (img, h')"
  shows "create_volume_node_from_numpy_array ns w array dirs name =
    (Inr (length (scene w)),
     \<lparr>heap = h',
      scene = scene w @
        [vtkMRMLScalarVolumeNode
           \<lparr>vn_name = name, vn_origin = [0, 0, 0], vn_spacing = [1, 1, 1],
            vn_ijk_to_ras_directions = dirs, vn_image_data = Some img,
            vn_display_node = Some (Suc (length (scene w)))\<rparr>,
         vtkMRMLScalarVolumeDisplayNode],
      storage_nodes = storage_nodes w @ [0]\<rparr>)"
  using assms
  by (simp add: create_volume_node_from_numpy_array_def AddNewNodeByClass_def SetOrigin_def
      SetSpacing_def SetIJKToRASDirections_def SetAndObserveImageData_def map_volume_node_def
      CreateDefaultDisplayNodes_def CreateDefaultStorageNode_def UnRegister_def
      new_volume_node_def Let_def nth_append list_update_append)

text \<open>
  C7. For a valid grid and any direction vectors, the volume registration returns the
  node it appended to the scene. The node has the given name, origin zero, unit spacing
  and the caller's direction vectors; its image data is the non-oriented image the
  conversion returns for the grid; it refers to a display node that is in the scene; and
  one storage node was created, whose creation reference has been given up.
\<close>

theorem volume_node_registered:
  assumes "shape array = [rows, cols]"
    and "get_vtk_array_type ns (dtype array) = Some t"
    and "get_numpy_array_type ns t = Some (dtype array)"
    and "c_contiguous array"
  shows "\<exists>w' vn img d.
     create_volume_node_from_numpy_array ns w array ijk_to_ras_directions node_name =
       (Inr (length (scene w)), w') \<and>
     volume_node_of (scene w') (length (scene w)) = Some vn \<and>
     vn_name vn = node_name \<and>
     vn_origin vn = [0, 0, 0] \<and>
     vn_spacing vn = [1, 1, 1] \<and>
     vn_ijk_to_ras_directions vn = ijk_to_ras_directions \<and>
     vn_image_data vn = Some img \<and>
     create_image_data_from_numpy_array ns (heap w) array False True = Inr (img, heap w') \<and>
     \<not> is_oriented img \<and>
     vn_display_node vn = Some d \<and> d < length (scene w') \<and>
     scene w' ! d = vtkMRMLScalarVolumeDisplayNode \<and>
     storage_nodes w' = storage_nodes w @ [0]"
proof -
  let ?img = "converted_image False t rows cols (length (heap w))"
  let ?h' = "heap w @ map (\<lambda>k. heap w ! (data array + k)) [0..<rows * cols]"
  have conv: "create_image_data_from_numpy_array ns (heap w) array False True = Inr (?img, ?h')"
    by (rule create_image_data_copy [OF assms(1,2,4,3)])
  show ?thesis
    unfolding create_volume_node_returns [OF conv] conv
    by (simp add: volume_node_of_def nth_append converted_image_def)
qed

theorem volume_node_registered_witness:
  "shape example_grid = [2, 3] \<and>
   get_vtk_array_type vtk_numpy_support (dtype example_grid) = Some VTK_SHORT \<and>
   get_numpy_array_type vtk_numpy_support VTK_SHORT = Some (dtype example_grid) \<and>
   c_contiguous example_grid \<and>
   (\<exists>w' vn img d.
     create_volume_node_from_numpy_array vtk_numpy_support example_world example_grid
         [[0, 1, 0], [0, 0, 1], [1, 0, 0]] ''mask'' =
       (Inr (length (scene example_world)), w') \<and>
     volume_node_of (scene w') (length (scene example_world)) = Some vn \<and>
     vn_name vn = ''mask'' \<and>
     vn_origin vn = [0, 0, 0] \<and>
     vn_spacing vn = [1, 1, 1] \<and>
     vn_ijk_to_ras_directions vn = [[0, 1, 0], [0, 0, 1], [1, 0, 0]] \<and>
     vn_image_data vn = Some img \<and>
     create_image_data_from_numpy_array vtk_numpy_support (heap example_world) example_grid
       False True = Inr (img, heap w') \<and>
     \<not> is_oriented img \<and>
     vn_display_node vn = Some d \<and> d < length (scene w') \<and>
     scene w' ! d = vtkMRMLScalarVolumeDisplayNode \<and>
     storage_nodes w' = storage_nodes example_world @ [0])"
  using volume_node_registered [OF example_grid_shape(1) example_grid_supported
      example_grid_contiguous, of example_world "[[0, 1, 0], [0, 0, 1], [1, 0, 0]]" "''mask''"]
    example_grid_shape example_grid_supported example_grid_contiguous
  by blast

section \<open>Segmentation registration: the loop over the labels\<close>

lemma length_elements_2d: "shape a = [r, c] \<Longrightarrow> length (elements h a) = r * c"
  by (simp add: elements_def length_indices_2d del: indices.simps)

lemma keeps_fortran_order_contiguous:
  assumes "shape a = [r, c]" "strides a = [s0, s1]" "c_contiguous a" "keeps_fortran_order a"
  shows "r = 0 \<or> c \<le> 1"
proof (rule ccontr)
  assume "\<not> (r = 0 \<or> c \<le> 1)"
  then have pos: "0 < r" "0 < c" and c: "c \<noteq> 1" by auto
  have "s1 = 1" using c_contiguous_2d [OF assms(1,2) pos] assms(3) c by simp
  moreover have "s0 \<noteq> 0" "\<bar>s0\<bar> < \<bar>s1\<bar>"
    using assms(1,2,4) by (simp_all add: keeps_fortran_order_def)
  ultimately show False by simp
qed

lemma indices_swapped:
  assumes "r = 0 \<or> c \<le> 1"
  shows "map rev (indices [c, r]) = indices [r, c]"
proof -
  consider "r = 0" | "c = 0" | "c = 1" using assms by (cases c) auto
  then show ?thesis
  proof cases
    case 1
    then show ?thesis by simp
  next
    case 2
    then show ?thesis by simp
  next
    case 3
    then show ?thesis by (simp add: comp_def map_concat [symmetric] del: map_concat)
  qed
qed

lemma eq_astype_int8_contiguous:
  assumes "shape a = [r, c]" "length (strides a) = 2" "c_contiguous a"
  shows "\<exists>out. eq_astype_int8 h a v = (out, h @ binary_mask v (elements h a)) \<and>
           shape out = [r, c] \<and> dtype out = np_int8 \<and> data out = length h \<and>
           c_contiguous out"
proof -
  obtain s0 s1 where st: "strides a = [s0, s1]"
    using assms(2) by (cases "strides a"; cases "tl (strides a)") auto
  show ?thesis
  proof (cases "keeps_fortran_order a")
    case True
    have deg: "r = 0 \<or> c \<le> 1"
      by (rule keeps_fortran_order_contiguous [OF assms(1) st assms(3) True])
    have order: "map rev (indices (rev (shape a))) = indices (shape a)"
      using indices_swapped [OF deg] assms(1) by (simp del: indices.simps)
    have "c_contiguous \<lparr>shape = [r, c], strides = [1, int r], dtype = np_int8, data = length h\<rparr>"
      using deg by (auto simp: c_contiguous_def)
    moreover have "eq_astype_int8 h a v =
        (\<lparr>shape = [r, c], strides = [1, int r], dtype = np_int8, data = length h\<rparr>,
         h @ map (\<lambda>idx. if getitem h a idx = v then 1 else 0) (indices (shape a)))"
      unfolding eq_astype_int8_def Let_def order using True assms(1) by simp
    ultimately show ?thesis
      using assms(1)
      by (simp add: binary_mask_def elements_def comp_def del: indices.simps)
  next
    case False
    have "c_contiguous \<lparr>shape = [r, c], strides = [int c, 1], dtype = np_int8, data = length h\<rparr>"
      by (auto simp: c_contiguous_def)
    then show ?thesis
      using False assms(1)
      by (simp add: eq_astype_int8_def Let_def binary_mask_def elements_def comp_def
          del: indices.simps)
  qed
qed

lemma labelmap_of_mask:
  assumes "shape out = [r, c]" "dtype out = np_int8" "data out = length h" "c_contiguous out"
    and "get_vtk_array_type ns np_int8 = Some t8" "get_numpy_array_type ns t8 = Some np_int8"
    and "length cells = r * c"
  shows "create_image_data_from_numpy_array ns (h @ cells) out True True =
           Inr (converted_image True t8 r c (length h + r * c), h @ cells @ cells)"
proof -
  have "map (\<lambda>k. (h @ cells) ! (data out + k)) [0..<length cells] = cells"
    by (simp add: assms(3) map_nth)
  then have "map (\<lambda>k. (h @ cells) ! (data out + k)) [0..<r * c] = cells"
    by (simp only: assms(7))
  moreover have "create_image_data_from_numpy_array ns (h @ cells) out True True =
      Inr (converted_image True t8 r c (length (h @ cells)),
           (h @ cells) @ map (\<lambda>k. (h @ cells) ! (data out + k)) [0..<r * c])"
    by (rule create_image_data_copy [OF assms(1) _ assms(4)]) (simp_all add: assms)
  ultimately show ?thesis using assms(7) by simp
qed

lemma image_values_labelmap:
  assumes "length h = n" "length cells = r * c"
  shows "image_values (h @ pre @ cells @ rest)
           ((converted_image True t r c (n + length pre))\<lparr>directions := dirs\<rparr>) = cells"
proof -
  have "map (\<lambda>k. (h @ pre @ cells @ rest) ! (n + length pre + k)) [0..<r * c] =
        map (\<lambda>k. cells ! k) [0..<r * c]"
    using assms by (intro map_cong) (simp_all add: nth_append)
  also have "\<dots> = map (\<lambda>k. cells ! k) [0..<length cells]" by (simp only: assms(2))
  also have "\<dots> = cells" by (rule map_nth)
  finally show ?thesis
    by (simp add: image_values_def converted_image_def array_values_def)
qed

lemma valid_array_append: "valid_array h a \<Longrightarrow> valid_array (h @ ext) a"
  by (auto simp: valid_array_def list_all_iff)

lemma elements_append: "valid_array h a \<Longrightarrow> elements (h @ ext) a = elements h a"
  by (auto simp: elements_def getitem_def nth_append dest: valid_array_addr)

lemma add_segments_returns:
  assumes "shape a = [r, c]" "length (strides a) = 2" "c_contiguous a"
    and "get_vtk_array_type ns np_int8 = Some t8" "get_numpy_array_type ns t8 = Some np_int8"
    and "valid_array (heap w) a" "sid < length (scene w)"
    and "scene w ! sid = vtkMRMLSegmentationNode sn"
    and "set keys \<subseteq> fst ` set cn"
  shows "\<exists>ext segs.
     add_segments ns a cn dirs sid keys w =
       (Inr (), w\<lparr>heap := heap w @ ext,
                  scene := (scene w)[sid := vtkMRMLSegmentationNode
                                       (sn\<lparr>sn_segments := sn_segments sn @ segs\<rparr>)]\<rparr>) \<and>
     length segs = length keys \<and>
     (\<forall>i<length keys.
        segment_name (segs ! i) = the (map_of cn (keys ! i)) \<and>
        is_oriented (binary_labelmap (segs ! i)) \<and>
        dimensions (binary_labelmap (segs ! i)) = [r, c, 1] \<and>
        directions (binary_labelmap (segs ! i)) = dirs \<and>
        (\<forall>rest. image_values (heap w @ ext @ rest) (binary_labelmap (segs ! i)) =
                  binary_mask (keys ! i) (elements (heap w) a)))"
  using assms(6-9)
proof (induction keys arbitrary: w sn)
  case Nil
  have "(scene w)[sid := vtkMRMLSegmentationNode sn] = scene w"
    using list_update_id [of "scene w" sid] Nil.prems(3) by simp
  then have "w\<lparr>heap := heap w @ [], scene := (scene w)[sid := vtkMRMLSegmentationNode
            (sn\<lparr>sn_segments := sn_segments sn @ []\<rparr>)]\<rparr> = w"
    by simp
  then show ?case
    by (intro exI [of _ "[]"]) simp
next
  case (Cons k ks)
  let ?h = "heap w"
  let ?cells = "binary_mask k (elements ?h a)"
  let ?img = "(converted_image True t8 r c (length ?h + r * c))\<lparr>directions := dirs\<rparr>"
  have len: "length ?cells = r * c"
    by (simp add: binary_mask_def length_elements_2d [OF assms(1)])
  obtain name where nm: "map_of cn k = Some name"
    using Cons.prems(4) by (cases "map_of cn k") (auto simp: map_of_eq_None_iff)
  let ?s1 = "\<lparr>segment_name = name, binary_labelmap = ?img\<rparr>"
  let ?sn1 = "sn\<lparr>sn_segments := sn_segments sn @ [?s1]\<rparr>"
  let ?w1 = "w\<lparr>heap := ?h @ ?cells @ ?cells,
              scene := (scene w)[sid := vtkMRMLSegmentationNode ?sn1]\<rparr>"
  obtain out where out: "eq_astype_int8 ?h a k = (out, ?h @ ?cells)"
    and outp: "shape out = [r, c]" "dtype out = np_int8" "data out = length ?h" "c_contiguous out"
    using eq_astype_int8_contiguous [OF assms(1-3), of ?h k] by blast
  have img: "create_image_data_from_numpy_array ns (?h @ ?cells) out True True =
      Inr (converted_image True t8 r c (length ?h + r * c), ?h @ ?cells @ ?cells)"
    by (rule labelmap_of_mask [OF outp assms(4,5) len])
  have step: "add_segments ns a cn dirs sid (k # ks) w = add_segments ns a cn dirs sid ks ?w1"
    using Cons.prems(3)
    by (simp add: out img nm SetDirections_def AddSegmentFromBinaryLabelmapRepresentation_def
        map_segmentation_node_def)
  have v1: "valid_array (heap ?w1) a"
    using valid_array_append [OF Cons.prems(1)] by simp
  have n1: "sid < length (scene ?w1)" "scene ?w1 ! sid = vtkMRMLSegmentationNode ?sn1"
    using Cons.prems(2) by simp_all
  have k1: "set ks \<subseteq> fst ` set cn" using Cons.prems(4) by simp
  obtain ext' segs' where
    res: "add_segments ns a cn dirs sid ks ?w1 =
       (Inr (), ?w1\<lparr>heap := heap ?w1 @ ext',
                  scene := (scene ?w1)[sid := vtkMRMLSegmentationNode
                                       (?sn1\<lparr>sn_segments := sn_segments ?sn1 @ segs'\<rparr>)]\<rparr>)"
    and lens: "length segs' = length ks"
    and segs: "\<And>i. i < length ks \<Longrightarrow>
        segment_name (segs' ! i) = the (map_of cn (ks ! i)) \<and>
        is_oriented (binary_labelmap (segs' ! i)) \<and>
        dimensions (binary_labelmap (segs' ! i)) = [r, c, 1] \<and>
        directions (binary_labelmap (segs' ! i)) = dirs \<and>
        (\<forall>rest. image_values (heap ?w1 @ ext' @ rest) (binary_labelmap (segs' ! i)) =
                  binary_mask (ks ! i) (elements (heap ?w1) a))"
    using Cons.IH [OF v1 n1 k1] by blast
  let ?ext = "?cells @ ?cells @ ext'"
  let ?segs = "?s1 # segs'"
  have el: "elements (heap ?w1) a = elements ?h a"
    using elements_append [OF Cons.prems(1)] by simp
  have final: "add_segments ns a cn dirs sid (k # ks) w =
       (Inr (), w\<lparr>heap := ?h @ ?ext,
                  scene := (scene w)[sid := vtkMRMLSegmentationNode
                                       (sn\<lparr>sn_segments := sn_segments sn @ ?segs\<rparr>)]\<rparr>)"
    unfolding step res by simp
  have first: "image_values (?h @ ?ext @ rest) ?img = ?cells" for rest
    using image_values_labelmap [where h = ?h and pre = ?cells and cells = ?cells
        and rest = "ext' @ rest" and t = t8 and dirs = dirs, OF refl len] len by simp
  have each: "segment_name (?segs ! i) = the (map_of cn ((k # ks) ! i)) \<and>
        is_oriented (binary_labelmap (?segs ! i)) \<and>
        dimensions (binary_labelmap (?segs ! i)) = [r, c, 1] \<and>
        directions (binary_labelmap (?segs ! i)) = dirs \<and>
        (\<forall>rest. image_values (?h @ ?ext @ rest) (binary_labelmap (?segs ! i)) =
                  binary_mask ((k # ks) ! i) (elements ?h a))"
    if "i < length (k # ks)" for i
  proof (cases i)
    case 0
    then show ?thesis using first nm by (simp add: converted_image_def)
  next
    case (Suc j)
    then have "j < length ks" using that by simp
    from segs [OF this] show ?thesis using Suc el by simp
  qed
  show ?case
    using final lens each by (intro exI [of _ ?ext] exI [of _ ?segs]) simp
qed

lemma map_of_distinct_nth:
  "distinct (map fst xs) \<Longrightarrow> i < length xs \<Longrightarrow> map_of xs (fst (xs ! i)) = Some (snd (xs ! i))"
  by (simp add: map_of_eq_Some_iff [THEN iffD2] nth_mem)

lemma create_segmentation_node_returns:
  assumes "shape a = [r, c]" "length (strides a) = 2" "c_contiguous a"
    and "get_vtk_array_type ns np_int8 = Some t8" "get_numpy_array_type ns t8 = Some np_int8"
    and "valid_array (heap w) a"
    and "distinct (map fst cn)"
  shows "\<exists>w' segs.
     create_segmentation_node_from_numpy_array ns w a cn node_name vol_node =
       (Inr (length (scene w)), w') \<and>
     segments_of (scene w') (length (scene w)) = segs \<and>
     length segs = length cn \<and>
     (\<forall>i<length cn.
        segment_name (segs ! i) = snd (cn ! i) \<and>
        is_oriented (binary_labelmap (segs ! i)) \<and>
        dimensions (binary_labelmap (segs ! i)) = [r, c, 1] \<and>
        directions (binary_labelmap (segs ! i)) = vn_ijk_to_ras_directions vol_node \<and>
        image_values (heap w') (binary_labelmap (segs ! i)) =
          binary_mask (fst (cn ! i)) (elements (heap w) a))"
proof -
  let ?sid = "length (scene w)"
  let ?dirs = "vn_ijk_to_ras_directions vol_node"
  let ?sn = "\<lparr>sn_name = node_name,
             sn_reference_geometry = Some (?dirs, vn_origin vol_node, vn_spacing vol_node),
             sn_display_node = Some (Suc ?sid), sn_segments = []\<rparr>"
  let ?sc = "scene w @ [vtkMRMLSegmentationNode ?sn, vtkMRMLSegmentationDisplayNode]"
  let ?w0 = "w\<lparr>scene := ?sc\<rparr>"
  have unfold: "create_segmentation_node_from_numpy_array ns w a cn node_name vol_node =
      (case add_segments ns a cn ?dirs ?sid (map fst cn) ?w0 of
         (Inl e, w') \<Rightarrow> (Inl e, w')
       | (Inr _, w') \<Rightarrow> (Inr ?sid, w'))"
    by (simp add: create_segmentation_node_from_numpy_array_def AddNewNodeByClass_def
        SetReferenceImageGeometryParameterFromVolumeNode_def map_segmentation_node_def
        CreateDefaultDisplayNodes_def new_segmentation_node_def Let_def nth_append
        list_update_append)
  have v0: "valid_array (heap ?w0) a" using assms(6) by simp
  have n0: "?sid < length (scene ?w0)" "scene ?w0 ! ?sid = vtkMRMLSegmentationNode ?sn"
    by (simp_all add: nth_append)
  have k0: "set (map fst cn) \<subseteq> fst ` set cn" by simp
  obtain ext segs where
    res: "add_segments ns a cn ?dirs ?sid (map fst cn) ?w0 =
       (Inr (), ?w0\<lparr>heap := heap ?w0 @ ext,
                  scene := (scene ?w0)[?sid := vtkMRMLSegmentationNode
                                       (?sn\<lparr>sn_segments := sn_segments ?sn @ segs\<rparr>)]\<rparr>)"
    and lens: "length segs = length (map fst cn)"
    and segs: "\<And>i. i < length (map fst cn) \<Longrightarrow>
        segment_name (segs ! i) = the (map_of cn (map fst cn ! i)) \<and>
        is_oriented (binary_labelmap (segs ! i)) \<and>
        dimensions (binary_labelmap (segs ! i)) = [r, c, 1] \<and>
        directions (binary_labelmap (segs ! i)) = ?dirs \<and>
        (\<forall>rest. image_values (heap ?w0 @ ext @ rest) (binary_labelmap (segs ! i)) =
                  binary_mask (map fst cn ! i) (elements (heap ?w0) a))"
    using add_segments_returns [OF assms(1-5) v0 n0 k0, of ?dirs] by blast
  let ?w' = "?w0\<lparr>heap := heap ?w0 @ ext,
                  scene := (scene ?w0)[?sid := vtkMRMLSegmentationNode
                                       (?sn\<lparr>sn_segments := sn_segments ?sn @ segs\<rparr>)]\<rparr>"
  have ret: "create_segmentation_node_from_numpy_array ns w a cn node_name vol_node =
      (Inr ?sid, ?w')"
    unfolding unfold res by simp
  have sg: "segments_of (scene ?w') ?sid = segs"
    by (simp add: segments_of_def nth_append list_update_append)
  have each: "segment_name (segs ! i) = snd (cn ! i) \<and>
        is_oriented (binary_labelmap (segs ! i)) \<and>
        dimensions (binary_labelmap (segs ! i)) = [r, c, 1] \<and>
        directions (binary_labelmap (segs ! i)) = ?dirs \<and>
        image_values (heap ?w') (binary_labelmap (segs ! i)) =
          binary_mask (fst (cn ! i)) (elements (heap w) a)" if "i < length cn" for i
  proof -
    have i: "i < length (map fst cn)" using that by simp
    have "image_values (heap ?w0 @ ext @ []) (binary_labelmap (segs ! i)) =
                  binary_mask (map fst cn ! i) (elements (heap ?w0) a)"
      using segs [OF i] by blast
    then have "image_values (heap ?w') (binary_labelmap (segs ! i)) =
          binary_mask (fst (cn ! i)) (elements (heap w) a)"
      using that by simp
    moreover have "segment_name (segs ! i) = snd (cn ! i)"
      using segs [OF i] map_of_distinct_nth [OF assms(7) that] that by simp
    ultimately show ?thesis using segs [OF i] by simp
  qed
  show ?thesis
    using ret sg lens each by (intro exI [of _ ?w'] exI [of _ segs]) simp
qed

lemma binary_mask_absent: "v \<notin> set xs \<Longrightarrow> binary_mask v xs = replicate (length xs) 0"
  by (induction xs) (auto simp: binary_mask_def)

lemma binary_mask_nth:
  "p < length xs \<Longrightarrow> (binary_mask v xs ! p \<noteq> 0) = (xs ! p = v)"
  by (simp add: binary_mask_def)

lemma int8_supported:
  "get_vtk_array_type vtk_numpy_support np_int8 = Some VTK_CHAR"
  "get_numpy_array_type vtk_numpy_support VTK_CHAR = Some np_int8"
  by (simp_all add: vtk_numpy_support_def)

lemma example_world_heap: "heap example_world = example_memory" "scene example_world = []"
  by (simp_all add: example_world_def)

lemma example_world_valid: "valid_array (heap example_world) example_grid"
  by (simp add: example_world_heap example_grid_valid)

section \<open>Segmentation registration: the segments\<close>

text \<open>
  C9. For a valid grid and a dictionary (an association list with distinct keys), the
  segmentation node gets one segment per key, in the dictionary's order: the names of
  its segments are the dictionary's values in order, the mask of the \<open>i\<close>-th segment is the
  binary mask of the \<open>i\<close>-th key over the grid, and that mask is all zeros when the key does
  not occur in the grid. The host is only asked to support \<^verbatim>\<open>int8\<close>, the dtype of the masks.
\<close>

theorem one_segment_per_key:
  assumes "shape array = [rows, cols]" "length (strides array) = 2" "c_contiguous array"
    and "valid_array (heap w) array"
    and "get_vtk_array_type ns np_int8 = Some t8" "get_numpy_array_type ns t8 = Some np_int8"
    and "distinct (map fst class_names)"
  shows "\<exists>w'.
     create_segmentation_node_from_numpy_array ns w array class_names node_name vol_node =
       (Inr (length (scene w)), w') \<and>
     map segment_name (segments_of (scene w') (length (scene w))) = map snd class_names \<and>
     (\<forall>i<length class_names.
        image_values (heap w') (binary_labelmap (segments_of (scene w') (length (scene w)) ! i)) =
          binary_mask (fst (class_names ! i)) (elements (heap w) array) \<and>
        (fst (class_names ! i) \<notin> set (elements (heap w) array) \<longrightarrow>
         image_values (heap w') (binary_labelmap (segments_of (scene w') (length (scene w)) ! i)) =
           replicate (rows * cols) 0))"
proof -
  obtain w' segs where
    ret: "create_segmentation_node_from_numpy_array ns w array class_names node_name vol_node =
       (Inr (length (scene w)), w')"
    and sg: "segments_of (scene w') (length (scene w)) = segs"
    and len: "length segs = length class_names"
    and each: "\<And>i. i < length class_names \<Longrightarrow>
        segment_name (segs ! i) = snd (class_names ! i) \<and>
        image_values (heap w') (binary_labelmap (segs ! i)) =
          binary_mask (fst (class_names ! i)) (elements (heap w) array)"
    using create_segmentation_node_returns [OF assms(1-3,5,6,4,7), of node_name vol_node]
    by blast
  have names: "map segment_name segs = map snd class_names"
    using len each by (intro nth_equalityI) simp_all
  have zeros: "image_values (heap w') (binary_labelmap (segs ! i)) = replicate (rows * cols) 0"
    if "i < length class_names" "fst (class_names ! i) \<notin> set (elements (heap w) array)" for i
    using each [OF that(1)] binary_mask_absent [OF that(2)] length_elements_2d [OF assms(1)]
    by simp
  show ?thesis
    using ret names each zeros unfolding sg [symmetric] by (intro exI [of _ w']) simp
qed

theorem one_segment_per_key_witness:
  "shape example_grid = [2, 3] \<and> length (strides example_grid) = 2 \<and>
   c_contiguous example_grid \<and> valid_array (heap example_world) example_grid \<and>
   get_vtk_array_type vtk_numpy_support np_int8 = Some VTK_CHAR \<and>
   get_numpy_array_type vtk_numpy_support VTK_CHAR = Some np_int8 \<and>
   distinct (map fst [(1 :: int, ''lung''), (5, ''tumor'')]) \<and>
   (\<exists>w'.
     create_segmentation_node_from_numpy_array vtk_numpy_support example_world example_grid
         [(1, ''lung''), (5, ''tumor'')] ''seg'' (new_volume_node ''vol'') =
       (Inr 0, w') \<and>
     map segment_name (segments_of (scene w') 0) = [''lung'', ''tumor''] \<and>
     image_values (heap w') (binary_labelmap (segments_of (scene w') 0 ! 0)) = [0, 1, 1, 0, 0, 1] \<and>
     image_values (heap w') (binary_labelmap (segments_of (scene w') 0 ! 1)) = [0, 0, 0, 0, 0, 0])"
proof -
  have d: "distinct (map fst [(1 :: int, ''lung''), (5, ''tumor'')])" by simp
  obtain w' where
    ret: "create_segmentation_node_from_numpy_array vtk_numpy_support example_world example_grid
         [(1, ''lung''), (5, ''tumor'')] ''seg'' (new_volume_node ''vol'') =
       (Inr (length (scene example_world)), w')"
    and names: "map segment_name (segments_of (scene w') (length (scene example_world))) =
       map snd [(1 :: int, ''lung''), (5, ''tumor'')]"
    and masks: "\<forall>i<length [(1 :: int, ''lung''), (5, ''tumor'')].
        image_values (heap w')
          (binary_labelmap (segments_of (scene w') (length (scene example_world)) ! i)) =
          binary_mask (fst ([(1 :: int, ''lung''), (5, ''tumor'')] ! i))
            (elements (heap example_world) example_grid) \<and>
        (fst ([(1 :: int, ''lung''), (5, ''tumor'')] ! i) \<notin>
           set (elements (heap example_world) example_grid) \<longrightarrow>
         image_values (heap w')
           (binary_labelmap (segments_of (scene w') (length (scene example_world)) ! i)) =
           replicate (2 * 3) 0)"
    using one_segment_per_key [OF example_grid_shape example_grid_contiguous example_world_valid
        int8_supported d, of "''seg''" "new_volume_node ''vol''"]
    by blast
  have m0: "image_values (heap w') (binary_labelmap (segments_of (scene w') 0 ! 0)) =
      [0, 1, 1, 0, 0, 1]"
    using masks [rule_format, of 0]
    by (simp add: example_world_heap example_grid_elements binary_mask_def)
  have m1: "image_values (heap w') (binary_labelmap (segments_of (scene w') 0 ! 1)) =
      [0, 0, 0, 0, 0, 0]"
    using masks [rule_format, of 1]
    by (simp add: example_world_heap example_grid_elements binary_mask_def)
  show ?thesis
    using ret names m0 m1 example_grid_shape example_grid_contiguous example_world_valid
      int8_supported d
    by (simp add: example_world_heap)
qed

text \<open>
  C1, as amended. When the keys of the dictionary are exactly the distinct labels of the
  grid, the segmentation node has as many segments as the grid has distinct labels, every
  label has its segment, and each segment has the name the dictionary gives its label and
  a mask of the grid's dimensions that is non-zero exactly where the grid equals the
  label.
\<close>

theorem segments_of_labelled_grid:
  assumes "shape array = [rows, cols]" "length (strides array) = 2" "c_contiguous array"
    and "valid_array (heap w) array"
    and "get_vtk_array_type ns np_int8 = Some t8" "get_numpy_array_type ns t8 = Some np_int8"
    and "distinct (map fst class_names)"
    and "set (map fst class_names) = set (elements (heap w) array)"
  shows "\<exists>w' segs.
     create_segmentation_node_from_numpy_array ns w array class_names node_name vol_node =
       (Inr (length (scene w)), w') \<and>
     segments_of (scene w') (length (scene w)) = segs \<and>
     length segs = card (set (elements (heap w) array)) \<and>
     (\<forall>l \<in> set (elements (heap w) array). \<exists>i<length segs. fst (class_names ! i) = l) \<and>
     (\<forall>i<length segs.
        segment_name (segs ! i) = snd (class_names ! i) \<and>
        dimensions (binary_labelmap (segs ! i)) = [rows, cols, 1] \<and>
        length (image_values (heap w') (binary_labelmap (segs ! i))) = rows * cols \<and>
        (\<forall>p<rows * cols.
           (image_values (heap w') (binary_labelmap (segs ! i)) ! p \<noteq> 0) =
           (elements (heap w) array ! p = fst (class_names ! i))))"
proof -
  let ?grid = "elements (heap w) array"
  obtain w' segs where
    ret: "create_segmentation_node_from_numpy_array ns w array class_names node_name vol_node =
       (Inr (length (scene w)), w')"
    and sg: "segments_of (scene w') (length (scene w)) = segs"
    and len: "length segs = length class_names"
    and each: "\<And>i. i < length class_names \<Longrightarrow>
        segment_name (segs ! i) = snd (class_names ! i) \<and>
        dimensions (binary_labelmap (segs ! i)) = [rows, cols, 1] \<and>
        image_values (heap w') (binary_labelmap (segs ! i)) =
          binary_mask (fst (class_names ! i)) ?grid"
    using create_segmentation_node_returns [OF assms(1-3,5,6,4,7), of node_name vol_node]
    by blast
  have glen: "length ?grid = rows * cols" by (rule length_elements_2d [OF assms(1)])
  have count: "length segs = card (set ?grid)"
    using len distinct_card [OF assms(7)] assms(8) by simp
  have cover: "\<exists>i<length segs. fst (class_names ! i) = l" if "l \<in> set ?grid" for l
  proof -
    have "l \<in> set (map fst class_names)" using that assms(8) by simp
    then obtain i where "i < length class_names" "map fst class_names ! i = l"
      by (auto simp: in_set_conv_nth)
    then show ?thesis using len by auto
  qed
  have masks: "segment_name (segs ! i) = snd (class_names ! i) \<and>
        dimensions (binary_labelmap (segs ! i)) = [rows, cols, 1] \<and>
        length (image_values (heap w') (binary_labelmap (segs ! i))) = rows * cols \<and>
        (\<forall>p<rows * cols.
           (image_values (heap w') (binary_labelmap (segs ! i)) ! p \<noteq> 0) =
           (?grid ! p = fst (class_names ! i)))" if "i < length segs" for i
  proof -
    have i: "i < length class_names" using that len by simp
    show ?thesis
      using each [OF i] glen binary_mask_nth [of _ ?grid "fst (class_names ! i)"]
      by (simp add: binary_mask_def)
  qed
  show ?thesis
    using ret sg count cover masks by (intro exI [of _ w'] exI [of _ segs]) simp
qed

theorem segments_of_labelled_grid_witness:
  "shape example_grid = [2, 3] \<and> length (strides example_grid) = 2 \<and>
   c_contiguous example_grid \<and> valid_array (heap example_world) example_grid \<and>
   get_vtk_array_type vtk_numpy_support np_int8 = Some VTK_CHAR \<and>
   get_numpy_array_type vtk_numpy_support VTK_CHAR = Some np_int8 \<and>
   distinct (map fst [(0 :: int, ''background''), (1, ''lung''), (2, ''heart'')]) \<and>
   set (map fst [(0 :: int, ''background''), (1, ''lung''), (2, ''heart'')]) =
     set (elements (heap example_world) example_grid) \<and>
   (\<exists>w' segs.
     create_segmentation_node_from_numpy_array vtk_numpy_support example_world example_grid
         [(0, ''background''), (1, ''lung''), (2, ''heart'')] ''seg'' (new_volume_node ''vol'') =
       (Inr 0, w') \<and>
     segments_of (scene w') 0 = segs \<and>
     length segs = 3 \<and>
     segment_name (segs ! 2) = ''heart'' \<and>
     dimensions (binary_labelmap (segs ! 2)) = [2, 3, 1] \<and>
     image_values (heap w') (binary_labelmap (segs ! 2)) ! 3 \<noteq> 0 \<and>
     image_values (heap w') (binary_labelmap (segs ! 2)) ! 4 = 0)"
proof -
  let ?cn = "[(0 :: int, ''background''), (1, ''lung''), (2, ''heart'')]"
  have d: "distinct (map fst ?cn)" by simp
  have s: "set (map fst ?cn) = set (elements (heap example_world) example_grid)"
    by (auto simp: example_world_heap example_grid_elements)
  have "set (elements (heap example_world) example_grid) = {0, 1, 2}"
    by (auto simp: example_world_heap example_grid_elements)
  then have k: "card (set (elements (heap example_world) example_grid)) = 3"
    by simp
  obtain w' segs where
    ret: "create_segmentation_node_from_numpy_array vtk_numpy_support example_world example_grid
         ?cn ''seg'' (new_volume_node ''vol'') = (Inr (length (scene example_world)), w')"
    and sg: "segments_of (scene w') (length (scene example_world)) = segs"
    and len: "length segs = card (set (elements (heap example_world) example_grid))"
    and masks: "\<forall>i<length segs.
        segment_name (segs ! i) = snd (?cn ! i) \<and>
        dimensions (binary_labelmap (segs ! i)) = [2, 3, 1] \<and>
        length (image_values (heap w') (binary_labelmap (segs ! i))) = 2 * 3 \<and>
        (\<forall>p<2 * 3.
           (image_values (heap w') (binary_labelmap (segs ! i)) ! p \<noteq> 0) =
           (elements (heap example_world) example_grid ! p = fst (?cn ! i)))"
    using segments_of_labelled_grid [OF example_grid_shape example_grid_contiguous
        example_world_valid int8_supported d s, of "''seg''" "new_volume_node ''vol''"]
    by blast
  have l3: "length segs = 3" using len k by simp
  have m: "segment_name (segs ! 2) = ''heart''"
    "dimensions (binary_labelmap (segs ! 2)) = [2, 3, 1]"
    "\<forall>p<2 * 3. (image_values (heap w') (binary_labelmap (segs ! 2)) ! p \<noteq> 0) =
           (elements (heap example_world) example_grid ! p = 2)"
    using masks [rule_format, of 2] l3 by simp_all
  have p3: "image_values (heap w') (binary_labelmap (segs ! 2)) ! 3 \<noteq> 0"
    using m(3) [rule_format, of 3] by (simp add: example_world_heap example_grid_elements)
  have p4: "image_values (heap w') (binary_labelmap (segs ! 2)) ! 4 = 0"
    using m(3) [rule_format, of 4] by (simp add: example_world_heap example_grid_elements)
  show ?thesis
    using ret sg l3 m(1,2) p3 p4 example_grid_shape example_grid_contiguous example_world_valid
      int8_supported d s
    by (simp add: example_world_heap)
qed

text \<open>
  C1 as stated fails: the loop runs over the keys of the dictionary, not over the labels
  of the grid. The example grid has the three labels 0, 1 and 2; with a dictionary that
  names only label 1 the node gets one segment.
\<close>

theorem segments_count_counterexample:
  "c_contiguous example_grid \<and> shape example_grid = [2, 3] \<and>
   card (set (elements (heap example_world) example_grid)) = 3 \<and>
   (\<exists>w'. create_segmentation_node_from_numpy_array vtk_numpy_support example_world example_grid
            [(1, ''lung'')] ''seg'' (new_volume_node ''vol'') = (Inr 0, w') \<and>
         length (segments_of (scene w') 0) = 1)"
proof -
  have d: "distinct (map fst [(1 :: int, ''lung'')])" by simp
  have "set (elements (heap example_world) example_grid) = {0, 1, 2}"
    by (auto simp: example_world_heap example_grid_elements)
  then have k: "card (set (elements (heap example_world) example_grid)) = 3"
    by simp
  obtain w' segs where
    "create_segmentation_node_from_numpy_array vtk_numpy_support example_world example_grid
         [(1, ''lung'')] ''seg'' (new_volume_node ''vol'') = (Inr (length (scene example_world)), w')"
    "segments_of (scene w') (length (scene example_world)) = segs"
    "length segs = length [(1 :: int, ''lung'')]"
    using create_segmentation_node_returns [OF example_grid_shape example_grid_contiguous
        int8_supported example_world_valid d, of "''seg''" "new_volume_node ''vol''"]
    by blast
  then show ?thesis
    using k example_grid_contiguous example_grid_shape(1) by (simp add: example_world_heap)
qed

end
